theory Spec2Isabelle
  imports Main
begin

section \<open>Values, exceptions and the world the manager runs in\<close>

text \<open>
  The program is one Python class, \<^verbatim>\<open>FirewallRulesManager\<close>, whose methods shell out
  to \<^verbatim>\<open>sudo iptables\<close> and \<^verbatim>\<open>sudo netstat\<close>, write to a log file, print to
  standard output and read and write one JSON file. Python strings are modelled as
  \<^typ>\<open>string\<close>, that is with code points below 256.
\<close>

datatype pyval =
    PNone
  | PBool bool
  | PInt int
  | PStr string
  | PList "pyval list"
  | PDict "(string \<times> pyval) list"

datatype ipaddr = IPv4Address nat | IPv6Address nat

datatype exn =
    CalledProcessError int "string list"
  | ValueError
  | IndexError
  | KeyError string
  | TypeError
  | FileNotFoundError
  | PermissionError
  | JSONDecodeError

text \<open>
  A log record or a printed line is a literal text, possibly followed by the formatted
  exception or value of an f-string's last field.
\<close>

datatype msg = Msg string | MsgExc string exn | MsgVal string pyval

datatype level = INFO | ERROR

record datetime =
  year :: nat
  month :: nat
  day :: nat
  hour :: nat
  minute :: nat
  second :: nat
  microsecond :: nat

text \<open>
  The environment: what \<^verbatim>\<open>subprocess.run\<close> does with a command on the host (exit
  status and captured standard output, and the host afterwards), the library's
  \<^verbatim>\<open>ipaddress.ip_address\<close>, the wall clock \<^verbatim>\<open>datetime.now()\<close> reads, and
  whether \<^verbatim>\<open>open(path, 'w')\<close> succeeds.
\<close>

record 'os env =
  run :: "string list \<Rightarrow> 'os \<Rightarrow> (int \<times> string) \<times> 'os"
  ip_address :: "string \<Rightarrow> exn + ipaddr"
  now :: "'os \<Rightarrow> datetime"
  writable :: "'os \<Rightarrow> string \<Rightarrow> bool"

record 'os world =
  os :: 'os
  calls :: "string list list"
  log :: "(level \<times> msg) list"
  out :: "msg list"
  files :: "string \<Rightarrow> string option"

definition is_text :: "pyval \<Rightarrow> bool" where
  "is_text v = (case v of PStr s \<Rightarrow> True | _ \<Rightarrow> False)"

subsection \<open>\<^verbatim>\<open>str(int)\<close>\<close>

definition digit_char :: "nat \<Rightarrow> char" where
  "digit_char d = char_of (48 + d)"

fun str_nat :: "nat \<Rightarrow> string" where
  "str_nat n = (if n < 10 then [digit_char n] else str_nat (n div 10) @ [digit_char (n mod 10)])"

declare str_nat.simps [simp del]

definition str_int :: "int \<Rightarrow> string" where
  "str_int i = (if i < 0 then CHR ''-'' # str_nat (nat (- i)) else str_nat (nat i))"

subsection \<open>\<^verbatim>\<open>subprocess.run(cmd, check=True)\<close>\<close>

text \<open>
  The command is handed to the host and recorded in \<open>calls\<close>; a non-zero exit status
  raises \<^verbatim>\<open>CalledProcessError\<close>.
\<close>

definition subprocess_run :: "'os env \<Rightarrow> string list \<Rightarrow> 'os world \<Rightarrow> (exn + string) \<times> 'os world" where
  "subprocess_run E cmd w =
     (case run E cmd (os w) of
        ((rc, so), s') \<Rightarrow>
          (if rc \<noteq> 0 then Inl (CalledProcessError rc cmd) else Inr so,
           w\<lparr>os := s', calls := calls w @ [cmd]\<rparr>))"

definition logging_error :: "msg \<Rightarrow> 'os world \<Rightarrow> 'os world" where
  "logging_error m w = w\<lparr>log := log w @ [(ERROR, m)]\<rparr>"

definition logging_info :: "msg \<Rightarrow> 'os world \<Rightarrow> 'os world" where
  "logging_info m w = w\<lparr>log := log w @ [(INFO, m)]\<rparr>"

definition print :: "msg \<Rightarrow> 'os world \<Rightarrow> 'os world" where
  "print m w = w\<lparr>out := out w @ [m]\<rparr>"

section \<open>The rule operations\<close>

definition list_rules_cmd :: "string list" where
  "list_rules_cmd = [''sudo'', ''iptables'', ''-L'', ''-n'', ''-v'']"

definition list_current_rules :: "'os env \<Rightarrow> 'os world \<Rightarrow> pyval \<times> 'os world" where
  "list_current_rules E w =
     (case subprocess_run E list_rules_cmd w of
        (Inr so, w1) \<Rightarrow>
          (PStr so, print (Msg so) (print (Msg ''Current Firewall Rules:'') w1))
      | (Inl e, w1) \<Rightarrow>
          (PList [], logging_error (MsgExc ''Failed to list rules: '' e) w1))"

definition validate_ip :: "'os env \<Rightarrow> string \<Rightarrow> bool" where
  "validate_ip E ip = (case ip_address E ip of Inr a \<Rightarrow> True | Inl e \<Rightarrow> False)"

definition rule_command :: "string \<Rightarrow> string \<Rightarrow> string \<Rightarrow> int \<Rightarrow> string \<Rightarrow> string list" where
  "rule_command flag chain source_ip destination_port protocol =
     [''sudo'', ''iptables'', flag, chain,
      ''-p'', protocol,
      ''-s'', source_ip,
      ''--dport'', str_int destination_port,
      ''-j'', ''ACCEPT'']"

definition rule_message :: "string \<Rightarrow> string \<Rightarrow> string \<Rightarrow> int \<Rightarrow> string \<Rightarrow> string" where
  "rule_message verb chain source_ip destination_port protocol =
     ''Rule '' @ verb @ '': Chain='' @ chain @ '', ''
       @ ''Source IP='' @ source_ip @ '', ''
       @ ''Destination Port='' @ str_int destination_port @ '', ''
       @ ''Protocol='' @ protocol"

definition add_rule ::
  "'os env \<Rightarrow> string \<Rightarrow> string \<Rightarrow> int \<Rightarrow> string \<Rightarrow> 'os world \<Rightarrow> bool \<times> 'os world" where
  "add_rule E chain source_ip destination_port protocol w =
     (if \<not> validate_ip E source_ip
      then (False, logging_error (Msg (''Invalid IP address: '' @ source_ip)) w)
      else
        (case subprocess_run E (rule_command ''-A'' chain source_ip destination_port protocol) w of
           (Inr so, w1) \<Rightarrow>
             (let log_message = rule_message ''Added'' chain source_ip destination_port protocol
              in (True, print (Msg log_message) (logging_info (Msg log_message) w1)))
         | (Inl e, w1) \<Rightarrow>
             (False, logging_error (MsgExc ''Failed to add rule: '' e) w1)))"

definition delete_rule ::
  "'os env \<Rightarrow> string \<Rightarrow> string \<Rightarrow> int \<Rightarrow> string \<Rightarrow> 'os world \<Rightarrow> bool \<times> 'os world" where
  "delete_rule E chain source_ip destination_port protocol w =
     (case subprocess_run E (rule_command ''-D'' chain source_ip destination_port protocol) w of
        (Inr so, w1) \<Rightarrow>
          (let log_message = rule_message ''Deleted'' chain source_ip destination_port protocol
           in (True, print (Msg log_message) (logging_info (Msg log_message) w1)))
      | (Inl e, w1) \<Rightarrow>
          (False, logging_error (MsgExc ''Failed to delete rule: '' e) w1))"

section \<open>String helpers of the Python library\<close>

definition is_digit :: "char \<Rightarrow> bool" where
  "is_digit c = (48 \<le> (of_char c :: nat) \<and> (of_char c :: nat) \<le> 57)"

definition digit_val :: "char \<Rightarrow> nat" where
  "digit_val c = of_char c - 48"

definition nat_of_digits :: "string \<Rightarrow> nat" where
  "nat_of_digits ds = foldl (\<lambda>a c. 10 * a + digit_val c) 0 ds"

text \<open>\<^verbatim>\<open>s.split(c)\<close> for a one-character separator: never empty, \<open>['']\<close> for the empty string.\<close>

fun split_on :: "char \<Rightarrow> string \<Rightarrow> string list" where
  "split_on c [] = [[]]"
| "split_on c (x # xs) =
     (if x = c then [] # split_on c xs
      else (case split_on c xs of [] \<Rightarrow> [[x]] | y # ys \<Rightarrow> (x # y) # ys))"

section \<open>A reference host\<close>

text \<open>
  The methods are stated for any environment, and no property of the methods is derived
  from a particular one. Concrete runs need a host; this one stands for an IPv4 packet
  filter as \<^verbatim>\<open>iptables\<close> documents it for the commands the manager sends.
  \<^verbatim>\<open>-A\<close> appends the rule to a built-in chain, whether or not an equal rule is there;
  \<^verbatim>\<open>-D\<close> removes the first equal rule and exits with status 1 when there is none. A
  protocol other than tcp and udp, a port outside 0..65535 and a source that is not a
  dotted-quad IPv4 literal (an IPv6 literal, a malformed address; the host resolves no
  names) are parameter errors (status 2). A host with a \<open>fault\<close> fails every command
  with that status (a held lock, a missing binary).
\<close>

text \<open>
  The dotted-quad IPv4 literals as the library reads them: four octets, each one to three
  ASCII digits without a leading zero, at most 255. The reference environment takes this
  parser for \<^verbatim>\<open>ipaddress.ip_address\<close>.
\<close>

definition parse_octet :: "string \<Rightarrow> exn + nat" where
  "parse_octet octet_str =
     (if octet_str = [] then Inl ValueError
      else if \<not> list_all is_digit octet_str then Inl ValueError
      else if length octet_str > 3 then Inl ValueError
      else if octet_str \<noteq> ''0'' \<and> hd octet_str = CHR ''0'' then Inl ValueError
      else if nat_of_digits octet_str > 255 then Inl ValueError
      else Inr (nat_of_digits octet_str))"

definition ipv4_literal :: "string \<Rightarrow> exn + ipaddr" where
  "ipv4_literal s =
     (case map parse_octet (split_on CHR ''.'' s) of
        [Inr a, Inr b, Inr c, Inr d] \<Rightarrow> Inr (IPv4Address (((a * 256 + b) * 256 + c) * 256 + d))
      | _ \<Rightarrow> Inl ValueError)"

definition ipv4_source :: "string \<Rightarrow> bool" where
  "ipv4_source s = (case ipv4_literal s of Inr a \<Rightarrow> True | Inl e \<Rightarrow> False)"

record host =
  table :: "(string \<times> string \<times> string \<times> string) list"
  sockets :: string
  fault :: "int option"
  clock :: datetime
  read_only :: bool

definition socket_cmd :: "string list" where
  "socket_cmd = [''sudo'', ''netstat'', ''-tuln'']"

definition builtin_chain :: "string \<Rightarrow> bool" where
  "builtin_chain c = (c = ''INPUT'' \<or> c = ''OUTPUT'' \<or> c = ''FORWARD'')"

definition port_protocol :: "string \<Rightarrow> bool" where
  "port_protocol p = (p = ''tcp'' \<or> p = ''udp'')"

definition valid_service :: "string \<Rightarrow> bool" where
  "valid_service d = (d \<noteq> [] \<and> list_all is_digit d \<and> nat_of_digits d \<le> 65535)"

definition render_rule :: "string \<times> string \<times> string \<times> string \<Rightarrow> string" where
  "render_rule r = (case r of (chain, protocol, source, dport) \<Rightarrow>
     chain @ '' ACCEPT '' @ protocol @ '' -- '' @ source @ '' 0.0.0.0/0 dpt:'' @ dport @ [CHR 0x0A])"

definition iptables_run :: "string list \<Rightarrow> host \<Rightarrow> (int \<times> string) \<times> host" where
  "iptables_run cmd h =
     (case fault h of
        Some rc \<Rightarrow> ((rc, []), h)
      | None \<Rightarrow>
          if cmd = list_rules_cmd then ((0, concat (map render_rule (table h))), h)
          else if cmd = socket_cmd then ((0, sockets h), h)
          else if length cmd = 12 \<and> take 2 cmd = [''sudo'', ''iptables'']
                  \<and> cmd ! 4 = ''-p'' \<and> cmd ! 6 = ''-s'' \<and> cmd ! 8 = ''--dport''
                  \<and> drop 10 cmd = [''-j'', ''ACCEPT'']
                  \<and> (cmd ! 2 = ''-A'' \<or> cmd ! 2 = ''-D'')
          then
            (let r = (cmd ! 3, cmd ! 5, cmd ! 7, cmd ! 9) in
             if \<not> (port_protocol (cmd ! 5) \<and> ipv4_source (cmd ! 7) \<and> valid_service (cmd ! 9))
             then ((2, []), h)
             else if \<not> builtin_chain (cmd ! 3) then ((1, []), h)
             else if cmd ! 2 = ''-A'' then ((0, []), h\<lparr>table := table h @ [r]\<rparr>)
             else if r \<in> set (table h) then ((0, []), h\<lparr>table := remove1 r (table h)\<rparr>)
             else ((1, []), h))
          else ((2, []), h))"

definition ref_env :: "host env" where
  "ref_env = \<lparr>run = iptables_run, ip_address = ipv4_literal, now = clock,
     writable = (\<lambda>h p. \<not> read_only h)\<rparr>"



definition netstat_sample :: string where
  "netstat_sample =
     ''tcp        0      0 0.0.0.0:22              0.0.0.0:*               LISTEN'' @ [CHR 0x0A]
     @ ''udp        0      0 127.0.0.1:53            0.0.0.0:*                      ''"

definition host0 :: host where
  "host0 = \<lparr>table = [], sockets = netstat_sample, fault = None,
     clock = \<lparr>year = 2024, month = 3, day = 9, hour = 7, minute = 5, second = 2,
       microsecond = 1500\<rparr>,
     read_only = False\<rparr>"

definition world0 :: "'os \<Rightarrow> 'os world" where
  "world0 h = \<lparr>os = h, calls = [], log = [], out = [], files = (\<lambda>p. None)\<rparr>"

section \<open>The traffic analysis\<close>

text \<open>\<^verbatim>\<open>str.isspace\<close> on code points below 256, and \<^verbatim>\<open>str.split()\<close> without a separator.\<close>

definition is_space :: "char \<Rightarrow> bool" where
  "is_space c = (let n = (of_char c :: nat) in
     (9 \<le> n \<and> n \<le> 13) \<or> (28 \<le> n \<and> n \<le> 32) \<or> n = 133 \<or> n = 160)"

fun split_acc :: "string \<Rightarrow> string \<Rightarrow> string list" where
  "split_acc cur [] = (if cur = [] then [] else [cur])"
| "split_acc cur (c # cs) =
     (if is_space c then (if cur = [] then split_acc [] cs else cur # split_acc [] cs)
      else split_acc (cur @ [c]) cs)"

definition split_ws :: "string \<Rightarrow> string list" where
  "split_ws s = split_acc [] s"

text \<open>
  \<^verbatim>\<open>xs[i]\<close>: an index from the front, or a negative one from the back; anything else
  raises \<^verbatim>\<open>IndexError\<close>.
\<close>

definition py_get :: "'a list \<Rightarrow> int \<Rightarrow> exn + 'a" where
  "py_get xs i =
     (if 0 \<le> i \<and> i < int (length xs) then Inr (xs ! nat i)
      else if i < 0 \<and> - i \<le> int (length xs) then Inr (xs ! nat (int (length xs) + i))
      else Inl IndexError)"

text \<open>
  \<^verbatim>\<open>re.search\<close> for patterns made of literal characters and \<^verbatim>\<open>\d+\<close>: a match may
  start at any position, and \<^verbatim>\<open>\d+\<close> takes one digit and then either more or none.
\<close>

datatype tok = Digits | Lit char

fun match_here :: "tok list \<Rightarrow> string \<Rightarrow> bool" where
  "match_here [] s = True"
| "match_here (Lit c # ts) [] = False"
| "match_here (Lit c # ts) (x # xs) = (x = c \<and> match_here ts xs)"
| "match_here (Digits # ts) [] = False"
| "match_here (Digits # ts) (x # xs) =
     (is_digit x \<and> (match_here (Digits # ts) xs \<or> match_here ts xs))"

fun re_search :: "tok list \<Rightarrow> string \<Rightarrow> bool" where
  "re_search p [] = match_here p []"
| "re_search p (x # xs) = (match_here p (x # xs) \<or> re_search p xs)"

definition addr_port_pattern :: "tok list" where
  "addr_port_pattern =
     [Digits, Lit CHR ''.'', Digits, Lit CHR ''.'', Digits, Lit CHR ''.'', Digits,
      Lit CHR '':'', Digits]"

text \<open>The dictionary \<^verbatim>\<open>connection_protocols\<close>, in insertion order.\<close>

definition dict_get :: "('k \<times> 'v) list \<Rightarrow> 'k \<Rightarrow> 'v \<Rightarrow> 'v" where
  "dict_get d k dflt = (case map_of d k of None \<Rightarrow> dflt | Some v \<Rightarrow> v)"

fun dict_set :: "'k \<Rightarrow> 'v \<Rightarrow> ('k \<times> 'v) list \<Rightarrow> ('k \<times> 'v) list" where
  "dict_set k v [] = [(k, v)]"
| "dict_set k v (p # d) = (if fst p = k then (k, v) # d else p # dict_set k v d)"

record analysis =
  total_connections :: int
  listening_ports :: "string list"
  connection_protocols :: "(string \<times> int) list"

text \<open>The body of the loop over the lines, and the loop.\<close>

definition scan_line :: "analysis \<Rightarrow> string \<Rightarrow> exn + analysis" where
  "scan_line a conn =
     (if re_search addr_port_pattern conn then
        (let parts = split_ws conn in
         if length parts \<ge> 4 then
           (case py_get parts 0 of
              Inl e \<Rightarrow> Inl e
            | Inr protocol \<Rightarrow>
                (case py_get parts 3 of
                   Inl e \<Rightarrow> Inl e
                 | Inr field \<Rightarrow>
                     (case py_get (split_on CHR '':'' field) (- 1) of
                        Inl e \<Rightarrow> Inl e
                      | Inr port \<Rightarrow>
                          Inr (a\<lparr>listening_ports := listening_ports a @ [port],
                                 connection_protocols :=
                                   dict_set protocol
                                     (dict_get (connection_protocols a) protocol 0 + 1)
                                     (connection_protocols a)\<rparr>))))
         else Inr a)
      else Inr a)"

fun scan_lines :: "analysis \<Rightarrow> string list \<Rightarrow> exn + analysis" where
  "scan_lines a [] = Inr a"
| "scan_lines a (conn # conns) =
     (case scan_line a conn of Inl e \<Rightarrow> Inl e | Inr a' \<Rightarrow> scan_lines a' conns)"

definition summarize :: "string \<Rightarrow> exn + analysis" where
  "summarize stdout =
     (let connections = split_on (CHR 0x0A) stdout
      in scan_lines \<lparr>total_connections = int (length connections), listening_ports = [],
           connection_protocols = []\<rparr> connections)"

definition as_dict :: "analysis \<Rightarrow> pyval" where
  "as_dict a = PDict
     [(''total_connections'', PInt (total_connections a)),
      (''listening_ports'', PList (map PStr (listening_ports a))),
      (''connection_protocols'', PDict (map (\<lambda>(k, v). (k, PInt v)) (connection_protocols a)))]"

definition has_key :: "pyval \<Rightarrow> string \<Rightarrow> bool" where
  "has_key v k = (case v of PDict d \<Rightarrow> k \<in> set (map fst d) | _ \<Rightarrow> False)"

text \<open>
  \<^verbatim>\<open>analyze_traffic\<close>: only \<^verbatim>\<open>CalledProcessError\<close> is caught, any other exception
  of the body would leave the method.
\<close>

definition analyze_traffic :: "'os env \<Rightarrow> 'os world \<Rightarrow> (exn + pyval) \<times> 'os world" where
  "analyze_traffic E w =
     (case subprocess_run E [''sudo'', ''netstat'', ''-tuln''] w of
        (Inr so, w1) \<Rightarrow>
          (case summarize so of
             Inl e \<Rightarrow> (Inl e, w1)
           | Inr a \<Rightarrow> (Inr (as_dict a), logging_info (Msg ''Traffic Analysis Completed'') w1))
      | (Inl e, w1) \<Rightarrow>
          (Inr (PDict []), logging_error (MsgExc ''Traffic analysis failed: '' e) w1))"

text \<open>
  The summary in the spec's words: a line is well formed when it holds the address:port
  pattern and has at least four whitespace-delimited fields; its protocol is the first
  field, its port what follows the last colon of the fourth field.
\<close>

definition well_formed :: "string \<Rightarrow> bool" where
  "well_formed l = (re_search addr_port_pattern l \<and> length (split_ws l) \<ge> 4)"

definition protocol_of :: "string \<Rightarrow> string" where
  "protocol_of l = split_ws l ! 0"

definition port_of :: "string \<Rightarrow> string" where
  "port_of l = last (split_on CHR '':'' (split_ws l ! 3))"

section \<open>The snapshot\<close>

text \<open>\<^verbatim>\<open>json.dump(config, f, indent=4)\<close>, with the default \<^verbatim>\<open>ensure_ascii\<close>.\<close>

definition hex_digit :: "nat \<Rightarrow> char" where
  "hex_digit d = (if d < 10 then char_of (48 + d) else char_of (87 + d))"

definition esc_char :: "char \<Rightarrow> string" where
  "esc_char c =
     (if c = CHR 0x22 then [CHR 0x5C, CHR 0x22]
      else if c = CHR 0x5C then [CHR 0x5C, CHR 0x5C]
      else if c = CHR 0x0A then [CHR 0x5C, CHR ''n'']
      else if c = CHR 0x0D then [CHR 0x5C, CHR ''r'']
      else if c = CHR 0x09 then [CHR 0x5C, CHR ''t'']
      else if c = CHR 0x08 then [CHR 0x5C, CHR ''b'']
      else if c = CHR 0x0C then [CHR 0x5C, CHR ''f'']
      else if 32 \<le> (of_char c :: nat) \<and> (of_char c :: nat) \<le> 126 then [c]
      else [CHR 0x5C, CHR ''u'', CHR ''0'', CHR ''0'',
            hex_digit ((of_char c :: nat) div 16), hex_digit ((of_char c :: nat) mod 16)])"

definition json_str :: "string \<Rightarrow> string" where
  "json_str s = CHR 0x22 # concat (map esc_char s) @ [CHR 0x22]"

fun join :: "string \<Rightarrow> string list \<Rightarrow> string" where
  "join sep [] = []"
| "join sep [x] = x"
| "join sep (x # y # ys) = x @ sep @ join sep (y # ys)"

definition newline_indent :: "nat \<Rightarrow> string" where
  "newline_indent lvl = CHR 0x0A # replicate (4 * lvl) CHR '' ''"

fun json_enc :: "nat \<Rightarrow> pyval \<Rightarrow> string" where
  "json_enc lvl PNone = ''null''"
| "json_enc lvl (PBool b) = (if b then ''true'' else ''false'')"
| "json_enc lvl (PInt i) = str_int i"
| "json_enc lvl (PStr s) = json_str s"
| "json_enc lvl (PList xs) =
     (if xs = [] then ''[]''
      else ''['' @ newline_indent (Suc lvl)
        @ join ('','' @ newline_indent (Suc lvl)) (map (json_enc (Suc lvl)) xs)
        @ newline_indent lvl @ '']'')"
| "json_enc lvl (PDict kvs) =
     (if kvs = [] then ''{}''
      else ''{'' @ newline_indent (Suc lvl)
        @ join ('','' @ newline_indent (Suc lvl))
            (map (\<lambda>kv. json_str (fst kv) @ '': '' @ json_enc (Suc lvl) (snd kv)) kvs)
        @ newline_indent lvl @ ''}'')"

definition json_dumps :: "pyval \<Rightarrow> string" where
  "json_dumps v = json_enc 0 v"


text \<open>
  \<^verbatim>\<open>json.load\<close>: whitespace, strings (a \<^verbatim>\<open>\u\<close> escape beyond \<^verbatim>\<open>00ff\<close> has no
  counterpart in the model's strings and is rejected, as are a number with a fraction or
  an exponent, \<^verbatim>\<open>NaN\<close> and \<^verbatim>\<open>Infinity\<close>), integers, the three literals, arrays and
  objects (a repeated key keeps its first place and its last value). The fuel bounds the
  number of nested calls; the length of the text is enough.
\<close>

definition is_json_ws :: "char \<Rightarrow> bool" where
  "is_json_ws c = (c = CHR '' '' \<or> c = CHR 0x09 \<or> c = CHR 0x0A \<or> c = CHR 0x0D)"

definition skip_ws :: "string \<Rightarrow> string" where
  "skip_ws s = dropWhile is_json_ws s"

definition hex_val :: "char \<Rightarrow> nat option" where
  "hex_val c = (let n = (of_char c :: nat) in
     if 48 \<le> n \<and> n \<le> 57 then Some (n - 48)
     else if 97 \<le> n \<and> n \<le> 102 then Some (n - 87)
     else if 65 \<le> n \<and> n \<le> 70 then Some (n - 55)
     else None)"

definition unescape :: "char \<Rightarrow> char option" where
  "unescape e =
     (if e = CHR 0x22 then Some (CHR 0x22)
      else if e = CHR 0x5C then Some (CHR 0x5C)
      else if e = CHR ''/'' then Some (CHR ''/'')
      else if e = CHR ''b'' then Some (CHR 0x08)
      else if e = CHR ''f'' then Some (CHR 0x0C)
      else if e = CHR ''n'' then Some (CHR 0x0A)
      else if e = CHR ''r'' then Some (CHR 0x0D)
      else if e = CHR ''t'' then Some (CHR 0x09)
      else None)"

definition hex4 :: "char \<Rightarrow> char \<Rightarrow> char \<Rightarrow> char \<Rightarrow> nat option" where
  "hex4 a b c d =
     (case (hex_val a, hex_val b, hex_val c, hex_val d) of
        (Some w, Some x, Some y, Some z) \<Rightarrow> Some (((w * 16 + x) * 16 + y) * 16 + z)
      | _ \<Rightarrow> None)"

fun scanstring :: "string \<Rightarrow> (string \<times> string) option" where
  "scanstring [] = None"
| "scanstring (c # cs) =
     (if c = CHR 0x22 then Some ([], cs)
      else if c = CHR 0x5C then
        (case cs of
           [] \<Rightarrow> None
         | e # r \<Rightarrow>
             if e = CHR ''u'' then
               (case r of
                  h1 # h2 # h3 # h4 # r' \<Rightarrow>
                    (case hex4 h1 h2 h3 h4 of
                       None \<Rightarrow> None
                     | Some n \<Rightarrow>
                         if n < 256 then
                           (case scanstring r' of
                              None \<Rightarrow> None
                            | Some (s, rest) \<Rightarrow> Some (char_of n # s, rest))
                         else None)
                | _ \<Rightarrow> None)
             else
               (case unescape e of
                  None \<Rightarrow> None
                | Some ch \<Rightarrow>
                    (case scanstring r of
                       None \<Rightarrow> None
                     | Some (s, rest) \<Rightarrow> Some (ch # s, rest))))
      else if (of_char c :: nat) < 32 then None
      else
        (case scanstring cs of
           None \<Rightarrow> None
         | Some (s, rest) \<Rightarrow> Some (c # s, rest)))"

definition scan_number :: "string \<Rightarrow> (pyval \<times> string) option" where
  "scan_number s =
     (let neg = (s \<noteq> [] \<and> hd s = CHR ''-'');
          r = (if neg then tl s else s);
          ds = (if r \<noteq> [] \<and> hd r = CHR ''0'' then ''0'' else takeWhile is_digit r);
          rest = drop (length ds) r
      in if ds = [] then None
         else if rest \<noteq> [] \<and> (hd rest = CHR ''e'' \<or> hd rest = CHR ''E''
                 \<or> (hd rest = CHR ''.'' \<and> tl rest \<noteq> [] \<and> is_digit (hd (tl rest))))
         then None
         else Some (PInt (if neg then - int (nat_of_digits ds) else int (nat_of_digits ds)), rest))"

definition dict_of :: "(string \<times> pyval) list \<Rightarrow> (string \<times> pyval) list" where
  "dict_of kvs = foldl (\<lambda>d kv. dict_set (fst kv) (snd kv) d) [] kvs"

fun parse_value :: "nat \<Rightarrow> string \<Rightarrow> (pyval \<times> string) option"
  and parse_items :: "nat \<Rightarrow> string \<Rightarrow> (pyval list \<times> string) option"
  and parse_pairs :: "nat \<Rightarrow> string \<Rightarrow> ((string \<times> pyval) list \<times> string) option"
where
  "parse_value 0 s = None"
| "parse_value (Suc n) s =
     (case s of
        [] \<Rightarrow> None
      | c # cs \<Rightarrow>
          if c = CHR 0x22 then
            (case scanstring cs of None \<Rightarrow> None | Some (str, r) \<Rightarrow> Some (PStr str, r))
          else if c = CHR ''{'' then
            (case skip_ws cs of
               [] \<Rightarrow> None
             | d # r \<Rightarrow>
                 if d = CHR ''}'' then Some (PDict [], r)
                 else (case parse_pairs n (d # r) of
                         None \<Rightarrow> None
                       | Some (kvs, r') \<Rightarrow> Some (PDict (dict_of kvs), r')))
          else if c = CHR ''['' then
            (case skip_ws cs of
               [] \<Rightarrow> None
             | d # r \<Rightarrow>
                 if d = CHR '']'' then Some (PList [], r)
                 else (case parse_items n (d # r) of
                         None \<Rightarrow> None
                       | Some (vs, r') \<Rightarrow> Some (PList vs, r')))
          else if take 4 s = ''null'' then Some (PNone, drop 4 s)
          else if take 4 s = ''true'' then Some (PBool True, drop 4 s)
          else if take 5 s = ''false'' then Some (PBool False, drop 5 s)
          else scan_number s)"
| "parse_items 0 s = None"
| "parse_items (Suc n) s =
     (case parse_value n s of
        None \<Rightarrow> None
      | Some (v, r) \<Rightarrow>
          (case skip_ws r of
             [] \<Rightarrow> None
           | d # r' \<Rightarrow>
               if d = CHR '']'' then Some ([v], r')
               else if d = CHR '','' then
                 (case parse_items n (skip_ws r') of
                    None \<Rightarrow> None
                  | Some (vs, r'') \<Rightarrow> Some (v # vs, r''))
               else None))"
| "parse_pairs 0 s = None"
| "parse_pairs (Suc n) s =
     (case s of
        [] \<Rightarrow> None
      | q # cs \<Rightarrow>
          if q \<noteq> CHR 0x22 then None
          else
            (case scanstring cs of
               None \<Rightarrow> None
             | Some (k, r) \<Rightarrow>
                 (case skip_ws r of
                    [] \<Rightarrow> None
                  | col # r1 \<Rightarrow>
                      if col \<noteq> CHR '':'' then None
                      else
                        (case parse_value n (skip_ws r1) of
                           None \<Rightarrow> None
                         | Some (v, r2) \<Rightarrow>
                             (case skip_ws r2 of
                                [] \<Rightarrow> None
                              | d # r3 \<Rightarrow>
                                  if d = CHR ''}'' then Some ([(k, v)], r3)
                                  else if d = CHR '','' then
                                    (case parse_pairs n (skip_ws r3) of
                                       None \<Rightarrow> None
                                     | Some (kvs, r4) \<Rightarrow> Some ((k, v) # kvs, r4))
                                  else None)))))"

definition json_loads :: "string \<Rightarrow> exn + pyval" where
  "json_loads s =
     (case parse_value (Suc (length s)) (skip_ws s) of
        None \<Rightarrow> Inl JSONDecodeError
      | Some (v, rest) \<Rightarrow> if skip_ws rest = [] then Inr v else Inl JSONDecodeError)"


text \<open>\<^verbatim>\<open>datetime.isoformat()\<close> of a naive datetime.\<close>

definition pad :: "nat \<Rightarrow> nat \<Rightarrow> string" where
  "pad k n = replicate (k - length (str_nat n)) CHR ''0'' @ str_nat n"

definition isoformat :: "datetime \<Rightarrow> string" where
  "isoformat d =
     pad 4 (year d) @ ''-'' @ pad 2 (month d) @ ''-'' @ pad 2 (day d) @ ''T''
       @ pad 2 (hour d) @ '':'' @ pad 2 (minute d) @ '':'' @ pad 2 (second d)
       @ (if microsecond d = 0 then [] else ''.'' @ pad 6 (microsecond d))"

definition config_file :: string where
  "config_file = ''firewall_config.json''"

definition save_configuration :: "'os env \<Rightarrow> 'os world \<Rightarrow> 'os world" where
  "save_configuration E w =
     (case list_current_rules E w of
        (current_rules, w1) \<Rightarrow>
          (let config = PDict [(''timestamp'', PStr (isoformat (now E (os w1)))),
                               (''rules'', current_rules)]
           in if writable E (os w1) config_file
              then logging_info (Msg (''Configuration saved to '' @ config_file))
                     (w1\<lparr>files := (files w1)(config_file \<mapsto> json_dumps config)\<rparr>)
              else logging_error (MsgExc ''Failed to save configuration: '' PermissionError) w1))"

text \<open>The first two lines of \<^verbatim>\<open>restore_configuration\<close>: open the file and decode it.\<close>

definition load_config :: "'os world \<Rightarrow> exn + pyval" where
  "load_config w =
     (case files w config_file of
        None \<Rightarrow> Inl FileNotFoundError
      | Some content \<Rightarrow> json_loads content)"

definition py_subscript :: "pyval \<Rightarrow> string \<Rightarrow> exn + pyval" where
  "py_subscript v k =
     (case v of
        PDict d \<Rightarrow> (case map_of d k of None \<Rightarrow> Inl (KeyError k) | Some x \<Rightarrow> Inr x)
      | _ \<Rightarrow> Inl TypeError)"

definition restore_configuration :: "'os env \<Rightarrow> 'os world \<Rightarrow> 'os world" where
  "restore_configuration E w =
     (case load_config w of
        Inl e \<Rightarrow>
          if e = FileNotFoundError then logging_error (Msg ''No saved configuration found'') w
          else logging_error (MsgExc ''Configuration restoration failed: '' e) w
      | Inr config \<Rightarrow>
          (case py_subscript config ''timestamp'' of
             Inl e \<Rightarrow> logging_error (MsgExc ''Configuration restoration failed: '' e) w
           | Inr ts \<Rightarrow>
               logging_info (Msg (''Configuration restored from '' @ config_file))
                 (print (MsgVal ''Restoring configuration from '' ts) w)))"

text \<open>
  An ISO-8601 date and time in the extended format, \<^verbatim>\<open>YYYY-MM-DDThh:mm:ss\<close> with an
  optional fraction of six digits, read back into its fields; and the order of instants.
\<close>

definition take_num :: "nat \<Rightarrow> string \<Rightarrow> (nat \<times> string) option" where
  "take_num k s =
     (if k \<le> length s \<and> list_all is_digit (take k s)
      then Some (nat_of_digits (take k s), drop k s) else None)"

definition expect :: "char \<Rightarrow> string \<Rightarrow> string option" where
  "expect c s = (case s of [] \<Rightarrow> None | x # r \<Rightarrow> if x = c then Some r else None)"

definition valid_datetime :: "datetime \<Rightarrow> bool" where
  "valid_datetime d =
     (1 \<le> year d \<and> year d \<le> 9999 \<and> 1 \<le> month d \<and> month d \<le> 12
      \<and> 1 \<le> day d \<and> day d \<le> 31 \<and> hour d < 24 \<and> minute d < 60 \<and> second d < 60
      \<and> microsecond d < 1000000)"

definition parse_iso8601 :: "string \<Rightarrow> datetime option" where
  "parse_iso8601 s =
     Option.bind (take_num 4 s) (\<lambda>(y, s).
     Option.bind (expect CHR ''-'' s) (\<lambda>s.
     Option.bind (take_num 2 s) (\<lambda>(mo, s).
     Option.bind (expect CHR ''-'' s) (\<lambda>s.
     Option.bind (take_num 2 s) (\<lambda>(dy, s).
     Option.bind (expect CHR ''T'' s) (\<lambda>s.
     Option.bind (take_num 2 s) (\<lambda>(h, s).
     Option.bind (expect CHR '':'' s) (\<lambda>s.
     Option.bind (take_num 2 s) (\<lambda>(mi, s).
     Option.bind (expect CHR '':'' s) (\<lambda>s.
     Option.bind (take_num 2 s) (\<lambda>(se, s).
     Option.bind (if s = [] then Some (0, [])
                  else Option.bind (expect CHR ''.'' s) (take_num 6)) (\<lambda>(us, s).
       (let d = \<lparr>year = y, month = mo, day = dy, hour = h, minute = mi, second = se,
                  microsecond = us\<rparr>
        in if s = [] \<and> valid_datetime d then Some d else None)))))))))))))"

fun lex_le :: "nat list \<Rightarrow> nat list \<Rightarrow> bool" where
  "lex_le [] ys = True"
| "lex_le (x # xs) [] = False"
| "lex_le (x # xs) (y # ys) = (x < y \<or> (x = y \<and> lex_le xs ys))"

definition dt_le :: "datetime \<Rightarrow> datetime \<Rightarrow> bool" where
  "dt_le a b =
     lex_le [year a, month a, day a, hour a, minute a, second a, microsecond a]
            [year b, month b, day b, hour b, minute b, second b, microsecond b]"

text \<open>The wall clock is not set back while a command runs.\<close>

definition clock_monotone :: "'os env \<Rightarrow> bool" where
  "clock_monotone E = (\<forall>cmd s. dt_le (now E s) (now E (snd (run E cmd s))))"

definition host1 :: host where
  "host1 = host0\<lparr>table := [(''INPUT'', ''tcp'', ''203.0.113.5'', ''443'')]\<rparr>"

definition header_line :: string where
  "header_line = ''Proto Recv-Q Send-Q Local Address           Foreign Address         State''"

section \<open>Facts about the rule operations\<close>

lemma subprocess_run_eq:
  "subprocess_run E cmd w =
     (if fst (fst (run E cmd (os w))) \<noteq> 0
      then Inl (CalledProcessError (fst (fst (run E cmd (os w)))) cmd)
      else Inr (snd (fst (run E cmd (os w)))),
      w\<lparr>os := snd (run E cmd (os w)), calls := calls w @ [cmd]\<rparr>)"
  by (auto simp: subprocess_run_def split: prod.splits)

lemma is_digit_digit_char: "d < 10 \<Longrightarrow> is_digit (digit_char d)"
  by (simp add: is_digit_def digit_char_def)

lemma digit_val_digit_char: "d < 10 \<Longrightarrow> digit_val (digit_char d) = d"
  by (simp add: digit_val_def digit_char_def)

lemma str_nat_digits: "list_all is_digit (str_nat n)"
proof (induction n rule: str_nat.induct)
  case (1 n)
  show ?case
  proof (cases "n < 10")
    case True
    then show ?thesis by (subst str_nat.simps) (simp add: is_digit_digit_char)
  next
    case False
    with 1 show ?thesis by (subst str_nat.simps) (simp add: is_digit_digit_char)
  qed
qed

lemma str_nat_nonempty: "str_nat n \<noteq> []"
  by (subst str_nat.simps) simp

lemma nat_of_digits_snoc: "nat_of_digits (ds @ [c]) = 10 * nat_of_digits ds + digit_val c"
  by (simp add: nat_of_digits_def)

lemma nat_of_digits_str_nat: "nat_of_digits (str_nat n) = n"
proof (induction n rule: str_nat.induct)
  case (1 n)
  show ?case
  proof (cases "n < 10")
    case True
    then show ?thesis
      by (subst str_nat.simps) (simp add: nat_of_digits_def digit_val_digit_char)
  next
    case False
    with 1 show ?thesis
      by (subst str_nat.simps) (simp add: nat_of_digits_snoc digit_val_digit_char)
  qed
qed

lemma valid_service_str_int: "0 \<le> p \<Longrightarrow> p \<le> 65535 \<Longrightarrow> valid_service (str_int p)"
  by (simp add: valid_service_def str_int_def str_nat_digits str_nat_nonempty nat_of_digits_str_nat)



lemma add_rule_eq:
  "add_rule E c s p pr w =
     (if \<not> validate_ip E s
      then (False, logging_error (Msg (''Invalid IP address: '' @ s)) w)
      else if fst (fst (run E (rule_command ''-A'' c s p pr) (os w))) \<noteq> 0
      then (False, logging_error (MsgExc ''Failed to add rule: ''
              (CalledProcessError (fst (fst (run E (rule_command ''-A'' c s p pr) (os w))))
                 (rule_command ''-A'' c s p pr)))
              (w\<lparr>os := snd (run E (rule_command ''-A'' c s p pr) (os w)),
                 calls := calls w @ [rule_command ''-A'' c s p pr]\<rparr>))
      else (True, print (Msg (rule_message ''Added'' c s p pr))
              (logging_info (Msg (rule_message ''Added'' c s p pr))
                (w\<lparr>os := snd (run E (rule_command ''-A'' c s p pr) (os w)),
                   calls := calls w @ [rule_command ''-A'' c s p pr]\<rparr>))))"
  by (simp add: add_rule_def subprocess_run_eq Let_def)

lemma delete_rule_eq:
  "delete_rule E c s p pr w =
     (if fst (fst (run E (rule_command ''-D'' c s p pr) (os w))) \<noteq> 0
      then (False, logging_error (MsgExc ''Failed to delete rule: ''
              (CalledProcessError (fst (fst (run E (rule_command ''-D'' c s p pr) (os w))))
                 (rule_command ''-D'' c s p pr)))
              (w\<lparr>os := snd (run E (rule_command ''-D'' c s p pr) (os w)),
                 calls := calls w @ [rule_command ''-D'' c s p pr]\<rparr>))
      else (True, print (Msg (rule_message ''Deleted'' c s p pr))
              (logging_info (Msg (rule_message ''Deleted'' c s p pr))
                (w\<lparr>os := snd (run E (rule_command ''-D'' c s p pr) (os w)),
                   calls := calls w @ [rule_command ''-D'' c s p pr]\<rparr>))))"
  by (simp add: delete_rule_def subprocess_run_eq Let_def)

lemma list_current_rules_eq:
  "list_current_rules E w =
     (if fst (fst (run E list_rules_cmd (os w))) \<noteq> 0
      then (PList [], logging_error (MsgExc ''Failed to list rules: ''
              (CalledProcessError (fst (fst (run E list_rules_cmd (os w)))) list_rules_cmd))
              (w\<lparr>os := snd (run E list_rules_cmd (os w)), calls := calls w @ [list_rules_cmd]\<rparr>))
      else (PStr (snd (fst (run E list_rules_cmd (os w)))),
            print (Msg (snd (fst (run E list_rules_cmd (os w)))))
              (print (Msg ''Current Firewall Rules:'')
                (w\<lparr>os := snd (run E list_rules_cmd (os w)), calls := calls w @ [list_rules_cmd]\<rparr>))))"
  by (simp add: list_current_rules_def subprocess_run_eq)

lemma validate_ip_ref_sample: "validate_ip ref_env ''10.0.0.1''"
  by (simp add: validate_ip_def ref_env_def ipv4_literal_def parse_octet_def is_digit_def
      nat_of_digits_def digit_val_def)

lemma not_validate_ip_ref_abc: "\<not> validate_ip ref_env ''abc''"
  by (simp add: validate_ip_def ref_env_def ipv4_literal_def parse_octet_def is_digit_def
      nat_of_digits_def digit_val_def)

lemma digit_char_simps:
  "digit_char 0 = CHR ''0''" "digit_char 1 = CHR ''1''" "digit_char 2 = CHR ''2''"
  "digit_char 3 = CHR ''3''" "digit_char 4 = CHR ''4''" "digit_char 5 = CHR ''5''"
  "digit_char 6 = CHR ''6''" "digit_char 7 = CHR ''7''" "digit_char 8 = CHR ''8''"
  "digit_char 9 = CHR ''9''"
  by (simp_all add: digit_char_def char_of_eq_iff)

lemma str_int_0: "str_int 0 = ''0''"
  by (simp add: str_int_def str_nat.simps digit_char_simps)

lemma str_int_65536: "str_int 65536 = ''65536''"
  by (simp add: str_int_def str_nat.simps digit_char_simps)

lemma str_int_80: "str_int 80 = ''80''"
  by (simp add: str_int_def str_nat.simps digit_char_simps)


lemma iptables_fault: "fault h = Some rc \<Longrightarrow> iptables_run cmd h = ((rc, []), h)"
  by (simp add: iptables_run_def)

lemma ipv4_source_samples: "ipv4_source ''10.0.0.1''" "ipv4_source ''203.0.113.5''"
  by (simp_all add: ipv4_source_def ipv4_literal_def parse_octet_def is_digit_def
      nat_of_digits_def digit_val_def)

lemma iptables_delete_absent:
  assumes "fault h = None" "builtin_chain c" "port_protocol pr" "0 \<le> p" "p \<le> 65535"
    and "ipv4_source s"
    and "(c, pr, s, str_int p) \<notin> set (table h)"
  shows "iptables_run (rule_command ''-D'' c s p pr) h = ((1, []), h)"
  using assms
  by (simp add: iptables_run_def rule_command_def list_rules_cmd_def socket_cmd_def
      valid_service_str_int)

lemma iptables_list: "fault h = None \<Longrightarrow>
   iptables_run list_rules_cmd h = ((0, concat (map render_rule (table h))), h)"
  by (simp add: iptables_run_def)

lemma ref_env_sel: "run ref_env = iptables_run" "ip_address ref_env = ipv4_literal"
  "now ref_env = clock" "writable ref_env = (\<lambda>h p. \<not> read_only h)"
  by (simp_all add: ref_env_def)

lemma host0_sel: "fault host0 = None" "table host0 = []" "sockets host0 = netstat_sample"
  "read_only host0 = False"
  "clock host0 = \<lparr>year = 2024, month = 3, day = 9, hour = 7, minute = 5, second = 2,
       microsecond = 1500\<rparr>"
  by (simp_all add: host0_def)

lemma world0_sel: "os (world0 h) = h" "calls (world0 h) = []" "log (world0 h) = []"
  "out (world0 h) = []" "files (world0 h) = (\<lambda>p. None)"
  by (simp_all add: world0_def)

lemma calls_delete_rule:
  "calls (snd (delete_rule E c s p pr w)) = calls w @ [rule_command ''-D'' c s p pr]"
  by (simp add: delete_rule_eq logging_error_def logging_info_def print_def)

section \<open>Claims about the rule operations\<close>

text \<open>
  C1, as stated, fails: \<^verbatim>\<open>add_rule\<close> checks the source address only, so a descriptor
  with a valid address and port 0 or 65536 reaches the gateway (one command is issued with
  \<^verbatim>\<open>--dport 0\<close>, respectively \<^verbatim>\<open>--dport 65536\<close>).
\<close>

theorem add_rule_port_reaches_gateway:
  "calls (snd (add_rule ref_env ''INPUT'' ''10.0.0.1'' 0 ''tcp'' (world0 host0)))
     = [[''sudo'', ''iptables'', ''-A'', ''INPUT'', ''-p'', ''tcp'', ''-s'', ''10.0.0.1'',
         ''--dport'', ''0'', ''-j'', ''ACCEPT'']]
   \<and> calls (snd (add_rule ref_env ''INPUT'' ''10.0.0.1'' 65536 ''tcp'' (world0 host0)))
     = [[''sudo'', ''iptables'', ''-A'', ''INPUT'', ''-p'', ''tcp'', ''-s'', ''10.0.0.1'',
         ''--dport'', ''65536'', ''-j'', ''ACCEPT'']]"
  by (simp add: add_rule_eq validate_ip_ref_sample world0_def logging_error_def
      logging_info_def print_def rule_command_def str_int_0 str_int_65536)

text \<open>
  C1 (amended): \<^verbatim>\<open>add_rule\<close> validates the source address only. When it is not a
  valid IP literal, the result is \<open>False\<close>, an error naming the address is logged and no
  gateway call is made; when it is valid, exactly one gateway call is made, whatever the
  destination port.
\<close>

theorem add_rule_validation_gate:
  "(\<not> validate_ip E source_ip \<longrightarrow>
      add_rule E chain source_ip destination_port protocol w
        = (False, logging_error (Msg (''Invalid IP address: '' @ source_ip)) w)
      \<and> calls (snd (add_rule E chain source_ip destination_port protocol w)) = calls w)
   \<and> (validate_ip E source_ip \<longrightarrow>
      calls (snd (add_rule E chain source_ip destination_port protocol w))
        = calls w @ [rule_command ''-A'' chain source_ip destination_port protocol])"
  by (simp add: add_rule_eq logging_error_def logging_info_def print_def)

theorem add_rule_validation_gate_witness:
  "\<not> validate_ip ref_env ''abc''
   \<and> add_rule ref_env ''INPUT'' ''abc'' 80 ''tcp'' (world0 host0)
        = (False, logging_error (Msg ''Invalid IP address: abc'') (world0 host0))
   \<and> calls (snd (add_rule ref_env ''INPUT'' ''abc'' 80 ''tcp'' (world0 host0))) = []
   \<and> validate_ip ref_env ''10.0.0.1''
   \<and> calls (snd (add_rule ref_env ''INPUT'' ''10.0.0.1'' 65536 ''tcp'' (world0 host0)))
        = [rule_command ''-A'' ''INPUT'' ''10.0.0.1'' 65536 ''tcp'']"
  using add_rule_validation_gate [of ref_env "''abc''" "''INPUT''" 80 "''tcp''" "world0 host0"]
    add_rule_validation_gate [of ref_env "''10.0.0.1''" "''INPUT''" 65536 "''tcp''" "world0 host0"]
    validate_ip_ref_sample not_validate_ip_ref_abc
  by (simp add: world0_sel logging_error_def)

text \<open>
  C2, as stated, fails: deleting a rule that is absent (exit status 1) and deleting on a
  host whose engine fails for another reason (exit status 4) give the same outcome, the
  plain \<open>False\<close>.
\<close>

theorem delete_rule_absent_plain_failure:
  "fst (delete_rule ref_env ''INPUT'' ''10.0.0.1'' 443 ''tcp'' (world0 host0)) = False
   \<and> fst (delete_rule ref_env ''INPUT'' ''10.0.0.1'' 443 ''tcp''
            (world0 (host0\<lparr>fault := Some 4\<rparr>))) = False"
proof -
  have absent: "iptables_run (rule_command ''-D'' ''INPUT'' ''10.0.0.1'' 443 ''tcp'') host0
      = ((1, []), host0)"
    by (rule iptables_delete_absent)
      (simp_all add: host0_sel builtin_chain_def port_protocol_def ipv4_source_samples)
  have faulty: "iptables_run (rule_command ''-D'' ''INPUT'' ''10.0.0.1'' 443 ''tcp'')
      (host0\<lparr>fault := Some 4\<rparr>) = ((4, []), host0\<lparr>fault := Some 4\<rparr>)"
    by (rule iptables_fault) simp
  show ?thesis
    by (simp add: delete_rule_eq ref_env_sel world0_sel absent faulty)
qed

text \<open>
  C2 (amended): whenever the gateway's delete command exits with a non-zero status, for an
  absent rule as for any other reason, \<^verbatim>\<open>delete_rule\<close> returns \<open>False\<close>, logs one error
  record carrying the \<^verbatim>\<open>CalledProcessError\<close> (the only place where the exit status
  appears) and prints nothing.
\<close>

theorem delete_rule_failure_is_plain:
  assumes "fst (fst (run E (rule_command ''-D'' chain source_ip destination_port protocol) (os w))) \<noteq> 0"
  shows "fst (delete_rule E chain source_ip destination_port protocol w) = False
    \<and> log (snd (delete_rule E chain source_ip destination_port protocol w))
        = log w @ [(ERROR, MsgExc ''Failed to delete rule: ''
            (CalledProcessError
              (fst (fst (run E (rule_command ''-D'' chain source_ip destination_port protocol) (os w))))
              (rule_command ''-D'' chain source_ip destination_port protocol)))]
    \<and> out (snd (delete_rule E chain source_ip destination_port protocol w)) = out w"
  using assms by (simp add: delete_rule_eq logging_error_def)

theorem delete_rule_failure_is_plain_witness:
  "fst (fst (run ref_env (rule_command ''-D'' ''INPUT'' ''10.0.0.1'' 443 ''tcp'') (os (world0 host0)))) = 1
   \<and> fst (delete_rule ref_env ''INPUT'' ''10.0.0.1'' 443 ''tcp'' (world0 host0)) = False
   \<and> log (snd (delete_rule ref_env ''INPUT'' ''10.0.0.1'' 443 ''tcp'' (world0 host0)))
       = [(ERROR, MsgExc ''Failed to delete rule: ''
            (CalledProcessError 1 (rule_command ''-D'' ''INPUT'' ''10.0.0.1'' 443 ''tcp'')))]
   \<and> out (snd (delete_rule ref_env ''INPUT'' ''10.0.0.1'' 443 ''tcp'' (world0 host0))) = []"
proof -
  have absent: "iptables_run (rule_command ''-D'' ''INPUT'' ''10.0.0.1'' 443 ''tcp'') host0
      = ((1, []), host0)"
    by (rule iptables_delete_absent)
      (simp_all add: host0_sel builtin_chain_def port_protocol_def ipv4_source_samples)
  then have rc: "fst (fst (run ref_env (rule_command ''-D'' ''INPUT'' ''10.0.0.1'' 443 ''tcp'')
      (os (world0 host0)))) = 1"
    by (simp add: ref_env_sel world0_sel)
  then have "fst (fst (run ref_env (rule_command ''-D'' ''INPUT'' ''10.0.0.1'' 443 ''tcp'')
      (os (world0 host0)))) \<noteq> 0"
    by simp
  from delete_rule_failure_is_plain [OF this] rc show ?thesis
    by (simp add: world0_sel)
qed

text \<open>
  C3: \<^verbatim>\<open>delete_rule\<close> has no validation gate. With the invalid source address
  \<^verbatim>\<open>abc\<close> the delete command is handed to the gateway, where \<^verbatim>\<open>add_rule\<close> on the
  same descriptor makes no call.
\<close>

theorem delete_rule_skips_validation:
  "\<not> validate_ip ref_env ''abc''
   \<and> calls (snd (delete_rule ref_env ''INPUT'' ''abc'' 80 ''tcp'' (world0 host0)))
       = [[''sudo'', ''iptables'', ''-D'', ''INPUT'', ''-p'', ''tcp'', ''-s'', ''abc'',
           ''--dport'', ''80'', ''-j'', ''ACCEPT'']]
   \<and> calls (snd (add_rule ref_env ''INPUT'' ''abc'' 80 ''tcp'' (world0 host0))) = []"
  by (simp add: calls_delete_rule not_validate_ip_ref_abc world0_sel rule_command_def str_int_80
      add_rule_eq logging_error_def)




text \<open>
  C9, as stated, fails: when the listing command fails, \<^verbatim>\<open>list_current_rules\<close> returns
  the empty list \<^verbatim>\<open>[]\<close>, which is not a text, while a successful listing is one.
\<close>

theorem list_failure_not_text:
  "fst (list_current_rules ref_env (world0 (host0\<lparr>fault := Some 4\<rparr>))) = PList []
   \<and> \<not> is_text (fst (list_current_rules ref_env (world0 (host0\<lparr>fault := Some 4\<rparr>))))
   \<and> is_text (fst (list_current_rules ref_env (world0 host0)))"
  by (simp add: list_current_rules_eq ref_env_sel world0_sel host0_sel iptables_fault
      iptables_list is_text_def)

text \<open>
  C9 (amended): when the gateway call fails, \<^verbatim>\<open>list_current_rules\<close> returns the empty
  list \<^verbatim>\<open>[]\<close>, writes one error record carrying the exception to the log itself, prints
  nothing and does not raise.
\<close>

theorem list_failure_returns_empty_list:
  assumes "fst (fst (run E list_rules_cmd (os w))) \<noteq> 0"
  shows "fst (list_current_rules E w) = PList []
    \<and> log (snd (list_current_rules E w))
        = log w @ [(ERROR, MsgExc ''Failed to list rules: ''
            (CalledProcessError (fst (fst (run E list_rules_cmd (os w)))) list_rules_cmd))]
    \<and> out (snd (list_current_rules E w)) = out w"
  using assms by (simp add: list_current_rules_eq logging_error_def)

theorem list_failure_returns_empty_list_witness:
  "fst (fst (run ref_env list_rules_cmd (os (world0 (host0\<lparr>fault := Some 4\<rparr>))))) = 4
   \<and> fst (list_current_rules ref_env (world0 (host0\<lparr>fault := Some 4\<rparr>))) = PList []
   \<and> log (snd (list_current_rules ref_env (world0 (host0\<lparr>fault := Some 4\<rparr>))))
        = [(ERROR, MsgExc ''Failed to list rules: '' (CalledProcessError 4 list_rules_cmd))]
   \<and> out (snd (list_current_rules ref_env (world0 (host0\<lparr>fault := Some 4\<rparr>)))) = []"
proof -
  have rc: "fst (fst (run ref_env list_rules_cmd (os (world0 (host0\<lparr>fault := Some 4\<rparr>))))) = 4"
    by (simp add: ref_env_sel world0_sel iptables_fault)
  then have "fst (fst (run ref_env list_rules_cmd (os (world0 (host0\<lparr>fault := Some 4\<rparr>))))) \<noteq> 0"
    by simp
  from list_failure_returns_empty_list [OF this] rc show ?thesis
    by (simp add: world0_sel)
qed

section \<open>Claims about the traffic analysis\<close>

lemma split_on_nonempty: "split_on c s \<noteq> []"
  by (induction s) (auto split: list.splits)

lemma py_get_nth: "n < length xs \<Longrightarrow> py_get xs (int n) = Inr (xs ! n)"
  by (simp add: py_get_def)

lemma py_get_last: "xs \<noteq> [] \<Longrightarrow> py_get xs (- 1) = Inr (last xs)"
  by (cases xs rule: rev_cases) (simp_all add: py_get_def nth_append)

lemma dict_get_dict_set:
  "dict_get (dict_set k v d) k' dflt = (if k' = k then v else dict_get d k' dflt)"
  by (induction d) (auto simp: dict_get_def)

lemma scan_line_eq:
  "scan_line a l =
     Inr (if well_formed l
          then a\<lparr>listening_ports := listening_ports a @ [port_of l],
                 connection_protocols :=
                   dict_set (protocol_of l)
                     (dict_get (connection_protocols a) (protocol_of l) 0 + 1)
                     (connection_protocols a)\<rparr>
          else a)"
proof (cases "well_formed l")
  case False
  then show ?thesis by (auto simp: scan_line_def well_formed_def Let_def)
next
  case True
  then have len: "4 \<le> length (split_ws l)" and m: "re_search addr_port_pattern l"
    by (simp_all add: well_formed_def)
  from len have g0: "py_get (split_ws l) 0 = Inr (split_ws l ! 0)"
    by (auto simp: py_get_def Let_def)
  from len have g3: "py_get (split_ws l) 3 = Inr (split_ws l ! 3)"
    by (simp add: py_get_def Let_def)
  have gl: "py_get (split_on CHR '':'' (split_ws l ! 3)) (- 1) = Inr (port_of l)"
    by (simp add: py_get_last split_on_nonempty port_of_def)
  show ?thesis
    using True len m by (simp add: scan_line_def Let_def g0 g3 gl protocol_of_def)
qed

lemma keys_dict_set: "fst ` set (dict_set k v d) = insert k (fst ` set d)"
  by (induction d) auto

lemma scan_lines_summary:
  "\<exists>a'. scan_lines a ls = Inr a'
     \<and> total_connections a' = total_connections a
     \<and> set (map fst (connection_protocols a'))
         = set (map fst (connection_protocols a)) \<union> set (map protocol_of (filter well_formed ls))
     \<and> listening_ports a' = listening_ports a @ map port_of (filter well_formed ls)
     \<and> (\<forall>p. dict_get (connection_protocols a') p 0
            = dict_get (connection_protocols a) p 0
              + int (length (filter (\<lambda>l. well_formed l \<and> protocol_of l = p) ls)))"
proof (induction ls arbitrary: a)
  case Nil
  then show ?case by simp
next
  case (Cons l ls)
  show ?case
  proof (cases "well_formed l")
    case False
    with Cons [of a] show ?thesis by (simp add: scan_line_eq)
  next
    case True
    let ?b = "a\<lparr>listening_ports := listening_ports a @ [port_of l],
                 connection_protocols :=
                   dict_set (protocol_of l)
                     (dict_get (connection_protocols a) (protocol_of l) 0 + 1)
                     (connection_protocols a)\<rparr>"
    from Cons [of ?b] obtain a' where a': "scan_lines ?b ls = Inr a'"
      "total_connections a' = total_connections ?b"
      "set (map fst (connection_protocols a'))
         = set (map fst (connection_protocols ?b)) \<union> set (map protocol_of (filter well_formed ls))"
      "listening_ports a' = listening_ports ?b @ map port_of (filter well_formed ls)"
      "\<forall>p. dict_get (connection_protocols a') p 0
            = dict_get (connection_protocols ?b) p 0
              + int (length (filter (\<lambda>l. well_formed l \<and> protocol_of l = p) ls))"
      by blast
    have "scan_lines a (l # ls) = Inr a'"
      using True a'(1) by (simp add: scan_line_eq)
    moreover have "total_connections a' = total_connections a"
      using a'(2) by simp
    moreover have "set (map fst (connection_protocols a'))
         = set (map fst (connection_protocols a))
           \<union> set (map protocol_of (filter well_formed (l # ls)))"
      using True a'(3) by (auto simp: keys_dict_set)
    moreover have "listening_ports a' = listening_ports a @ map port_of (filter well_formed (l # ls))"
      using True a'(4) by simp
    moreover have "\<forall>p. dict_get (connection_protocols a') p 0
            = dict_get (connection_protocols a) p 0
              + int (length (filter (\<lambda>l. well_formed l \<and> protocol_of l = p) (l # ls)))"
      using True a'(5) by (simp add: dict_get_dict_set)
    ultimately show ?thesis by blast
  qed
qed

lemma summarize_summary:
  "\<exists>a. summarize stdout = Inr a
     \<and> total_connections a = int (length (split_on (CHR 0x0A) stdout))
     \<and> set (map fst (connection_protocols a))
         = set (map protocol_of (filter well_formed (split_on (CHR 0x0A) stdout)))
     \<and> listening_ports a = map port_of (filter well_formed (split_on (CHR 0x0A) stdout))
     \<and> (\<forall>p. dict_get (connection_protocols a) p 0
            = int (length (filter (\<lambda>l. well_formed l \<and> protocol_of l = p)
                             (split_on (CHR 0x0A) stdout))))"
  using scan_lines_summary
    [of "\<lparr>total_connections = int (length (split_on (CHR 0x0A) stdout)), listening_ports = [],
           connection_protocols = []\<rparr>" "split_on (CHR 0x0A) stdout"]
  by (simp add: summarize_def Let_def dict_get_def)

lemma analyze_traffic_eq:
  "analyze_traffic E w =
     (if fst (fst (run E socket_cmd (os w))) \<noteq> 0
      then (Inr (PDict []), logging_error (MsgExc ''Traffic analysis failed: ''
              (CalledProcessError (fst (fst (run E socket_cmd (os w)))) socket_cmd))
              (w\<lparr>os := snd (run E socket_cmd (os w)), calls := calls w @ [socket_cmd]\<rparr>))
      else (case summarize (snd (fst (run E socket_cmd (os w)))) of
              Inl e \<Rightarrow> (Inl e, w\<lparr>os := snd (run E socket_cmd (os w)), calls := calls w @ [socket_cmd]\<rparr>)
            | Inr a \<Rightarrow> (Inr (as_dict a), logging_info (Msg ''Traffic Analysis Completed'')
                (w\<lparr>os := snd (run E socket_cmd (os w)), calls := calls w @ [socket_cmd]\<rparr>))))"
  unfolding socket_cmd_def by (simp add: analyze_traffic_def subprocess_run_eq)

text \<open>
  C8: for every input text the summarization returns a summary (no exception leaves it,
  nor \<^verbatim>\<open>analyze_traffic\<close>); \<open>total_connections\<close> counts every line of the text, and
  the listening ports and the protocol counts are exactly those of the well-formed lines:
  the lines without the address:port pattern and the lines with fewer than four fields are
  left out of both.
\<close>

theorem summarize_total_and_aggregates:
  "(\<exists>a. summarize stdout = Inr a
     \<and> total_connections a = int (length (split_on (CHR 0x0A) stdout))
     \<and> listening_ports a = map port_of (filter well_formed (split_on (CHR 0x0A) stdout))
     \<and> set (map fst (connection_protocols a))
         = set (map protocol_of (filter well_formed (split_on (CHR 0x0A) stdout)))
     \<and> (\<forall>p. dict_get (connection_protocols a) p 0
            = int (length (filter (\<lambda>l. well_formed l \<and> protocol_of l = p)
                             (split_on (CHR 0x0A) stdout)))))
   \<and> (\<exists>v. fst (analyze_traffic E w) = Inr v)"
proof -
  obtain b where "summarize (snd (fst (run E socket_cmd (os w)))) = Inr b"
    using summarize_summary by blast
  then have "\<exists>v. fst (analyze_traffic E w) = Inr v"
    by (simp add: analyze_traffic_eq)
  moreover from summarize_summary [of stdout] have "\<exists>a. summarize stdout = Inr a
     \<and> total_connections a = int (length (split_on (CHR 0x0A) stdout))
     \<and> listening_ports a = map port_of (filter well_formed (split_on (CHR 0x0A) stdout))
     \<and> set (map fst (connection_protocols a))
         = set (map protocol_of (filter well_formed (split_on (CHR 0x0A) stdout)))
     \<and> (\<forall>p. dict_get (connection_protocols a) p 0
            = int (length (filter (\<lambda>l. well_formed l \<and> protocol_of l = p)
                             (split_on (CHR 0x0A) stdout))))"
    by blast
  ultimately show ?thesis by blast
qed

lemma match_here_lazy:
  "match_here (Lit c # ts) (x # xs) = (if x = c then match_here ts xs else False)"
  "match_here (Digits # ts) (x # xs) =
     (if is_digit x then (if match_here (Digits # ts) xs then True else match_here ts xs)
      else False)"
  by simp_all

lemma re_search_lazy:
  "re_search p (x # xs) = (if match_here p (x # xs) then True else re_search p xs)"
  by simp

lemmas census_eval =
  match_here_lazy re_search_lazy
  addr_port_pattern_def is_digit_def split_ws_def is_space_def py_get_def dict_get_def Let_def

lemma header_no_match: "\<not> re_search addr_port_pattern header_line"
  by (simp add: header_line_def census_eval del: match_here.simps(3,5) re_search.simps(2))


lemma summarize_sample:
  "summarize netstat_sample
     = Inr \<lparr>total_connections = 2, listening_ports = [''22'', ''53''],
           connection_protocols = [(''tcp'', 1), (''udp'', 1)]\<rparr>"
  by (simp add: netstat_sample_def summarize_def scan_line_def census_eval
      del: match_here.simps(3,5) re_search.simps(2))


text \<open>
  C7: on the two netstat lines of the spec the protocol counts are tcp: 1 and udp: 1 and
  the listening ports are "22" and "53" in input order; a line without the address:port
  pattern leaves the summary as it is.
\<close>

theorem census_sample_summary:
  "summarize netstat_sample
     = Inr \<lparr>total_connections = 2, listening_ports = [''22'', ''53''],
           connection_protocols = [(''tcp'', 1), (''udp'', 1)]\<rparr>
   \<and> (\<not> re_search addr_port_pattern l \<longrightarrow> scan_line a l = Inr a)"
  by (simp add: summarize_sample scan_line_eq well_formed_def)

theorem census_sample_summary_witness:
  "\<not> re_search addr_port_pattern header_line
   \<and> scan_line \<lparr>total_connections = 1, listening_ports = [], connection_protocols = []\<rparr>
        header_line
      = Inr \<lparr>total_connections = 1, listening_ports = [], connection_protocols = []\<rparr>"
  using census_sample_summary [of header_line
      "\<lparr>total_connections = 1, listening_ports = [], connection_protocols = []\<rparr>"]
    header_no_match
  by simp

text \<open>
  C10: when the socket-listing command fails, \<^verbatim>\<open>analyze_traffic\<close> returns the empty
  dictionary, which has none of the keys \<open>total_connections\<close>, \<open>listening_ports\<close>,
  \<open>connection_protocols\<close> that every successful summary has, logs the failure and does
  not raise.
\<close>

theorem analyze_traffic_failure_empty:
  assumes "fst (fst (run E socket_cmd (os w))) \<noteq> 0"
  shows "(\<exists>v. fst (analyze_traffic E w) = Inr v \<and> v = PDict []
            \<and> \<not> has_key v ''total_connections''
            \<and> \<not> has_key v ''listening_ports''
            \<and> \<not> has_key v ''connection_protocols'')
    \<and> log (snd (analyze_traffic E w))
        = log w @ [(ERROR, MsgExc ''Traffic analysis failed: ''
            (CalledProcessError (fst (fst (run E socket_cmd (os w)))) socket_cmd))]
    \<and> has_key (as_dict a) ''total_connections''
    \<and> has_key (as_dict a) ''listening_ports''
    \<and> has_key (as_dict a) ''connection_protocols''"
  using assms by (simp add: analyze_traffic_eq has_key_def as_dict_def logging_error_def)

theorem analyze_traffic_failure_empty_witness:
  "fst (fst (run ref_env socket_cmd (os (world0 (host0\<lparr>fault := Some 1\<rparr>))))) = 1
   \<and> fst (analyze_traffic ref_env (world0 (host0\<lparr>fault := Some 1\<rparr>))) = Inr (PDict [])
   \<and> log (snd (analyze_traffic ref_env (world0 (host0\<lparr>fault := Some 1\<rparr>))))
        = [(ERROR, MsgExc ''Traffic analysis failed: '' (CalledProcessError 1 socket_cmd))]"
proof -
  have rc: "fst (fst (run ref_env socket_cmd (os (world0 (host0\<lparr>fault := Some 1\<rparr>))))) = 1"
    by (simp add: ref_env_sel world0_sel iptables_fault)
  then have "fst (fst (run ref_env socket_cmd (os (world0 (host0\<lparr>fault := Some 1\<rparr>))))) \<noteq> 0"
    by simp
  from analyze_traffic_failure_empty [OF this] rc show ?thesis
    by (simp add: world0_sel)
qed

section \<open>Facts about the snapshot\<close>

lemma hex_val_hex_digit: "d < 16 \<Longrightarrow> hex_val (hex_digit d) = Some d"
  by (simp add: hex_val_def hex_digit_def Let_def)

lemma hex_val_zero: "hex_val CHR ''0'' = Some 0"
  by (simp add: hex_val_def)

lemma char_of_div_mod: "char_of ((of_char c :: nat) div 16 * 16 + (of_char c :: nat) mod 16) = c"
  by simp

lemma of_char_less_256: "(of_char c :: nat) < 256"
  by (metis of_char_mod_256 mod_less_divisor zero_less_numeral)

lemma scanstring_esc:
  "scanstring (esc_char c @ r)
     = (case scanstring r of None \<Rightarrow> None | Some (s, rest) \<Rightarrow> Some (c # s, rest))"
proof -
  consider (special) "c \<in> {CHR 0x22, CHR 0x5C, CHR 0x0A, CHR 0x0D, CHR 0x09, CHR 0x08, CHR 0x0C}"
    | (plain) "c \<notin> {CHR 0x22, CHR 0x5C, CHR 0x0A, CHR 0x0D, CHR 0x09, CHR 0x08, CHR 0x0C}"
        "32 \<le> (of_char c :: nat)" "(of_char c :: nat) \<le> 126"
    | (other) "c \<notin> {CHR 0x22, CHR 0x5C, CHR 0x0A, CHR 0x0D, CHR 0x09, CHR 0x08, CHR 0x0C}"
        "\<not> (32 \<le> (of_char c :: nat) \<and> (of_char c :: nat) \<le> 126)"
    by blast
  then show ?thesis
  proof cases
    case special
    then show ?thesis
      by (auto simp: esc_char_def unescape_def)
  next
    case plain
    then show ?thesis
      by (simp add: esc_char_def)
  next
    case other
    have d1: "(of_char c :: nat) div 16 < 16"
      using of_char_less_256 [of c] by presburger
    have d2: "(of_char c :: nat) mod 16 < 16"
      by simp
    have h: "hex4 CHR ''0'' CHR ''0'' (hex_digit ((of_char c :: nat) div 16))
               (hex_digit ((of_char c :: nat) mod 16))
             = Some ((of_char c :: nat) div 16 * 16 + (of_char c :: nat) mod 16)"
      by (simp add: hex4_def hex_val_zero hex_val_hex_digit [OF d1] hex_val_hex_digit [OF d2])
    have lt: "(of_char c :: nat) div 16 * 16 + (of_char c :: nat) mod 16 < 256"
      using of_char_less_256 [of c] by presburger
    from other show ?thesis
      by (simp add: esc_char_def h lt char_of_div_mod del: div_mult_mod_eq split: option.splits)
  qed
qed

lemma scanstring_concat:
  "scanstring (concat (map esc_char s) @ CHR 0x22 # rest) = Some (s, rest)"
proof (induction s)
  case Nil
  show ?case by simp
next
  case (Cons c s)
  then show ?case by (simp add: scanstring_esc del: scanstring.simps(2))
qed

lemma json_str_append:
  "json_str s @ r = CHR 0x22 # (concat (map esc_char s) @ CHR 0x22 # r)"
  by (simp add: json_str_def)

lemma skip_ws_newline_indent:
  "\<not> is_json_ws c \<Longrightarrow> skip_ws (newline_indent k @ c # r) = c # r"
  by (simp add: skip_ws_def newline_indent_def is_json_ws_def dropWhile_append)

lemma skip_ws_space: "skip_ws (CHR '' '' # s) = skip_ws s"
  by (simp add: skip_ws_def is_json_ws_def)

lemma skip_ws_stop: "\<not> is_json_ws c \<Longrightarrow> skip_ws (c # r) = c # r"
  by (simp add: skip_ws_def)

lemma not_ws: "\<not> is_json_ws (CHR 0x22)" "\<not> is_json_ws CHR '':''" "\<not> is_json_ws CHR '',''"
  "\<not> is_json_ws CHR ''}''" "\<not> is_json_ws CHR ''{''"
  by (simp_all add: is_json_ws_def)

lemma skip_ws_json_str: "skip_ws (json_str s @ r) = json_str s @ r"
  by (simp add: json_str_def skip_ws_def is_json_ws_def)

lemma parse_value_str:
  "parse_value (Suc n) (json_str s @ r) = Some (PStr s, r)"
  by (simp add: json_str_append scanstring_concat del: scanstring.simps)

lemma json_dumps_config:
  "json_dumps (PDict [(k1, PStr v1), (k2, PStr v2)])
     = CHR ''{'' # newline_indent 1 @ json_str k1 @ CHR '':'' # CHR '' '' # json_str v1
       @ CHR '','' # newline_indent 1 @ json_str k2 @ CHR '':'' # CHR '' '' # json_str v2
       @ newline_indent 0 @ ''}''"
  by (simp add: json_dumps_def)

lemma skip_ws_tail: "skip_ws (newline_indent 0 @ CHR ''}'' # r) = CHR ''}'' # r"
  by (rule skip_ws_newline_indent) (rule not_ws)

lemma parse_pairs_two:
  "parse_pairs (Suc (Suc (Suc m)))
     (json_str k1 @ CHR '':'' # CHR '' '' # json_str v1
       @ CHR '','' # newline_indent 1 @ json_str k2 @ CHR '':'' # CHR '' '' # json_str v2
       @ newline_indent 0 @ ''}'' @ r)
   = Some ([(k1, PStr v1), (k2, PStr v2)], r)"
proof -
  have second: "parse_pairs (Suc (Suc m))
     (json_str k2 @ CHR '':'' # CHR '' '' # json_str v2 @ newline_indent 0 @ CHR ''}'' # r)
   = Some ([(k2, PStr v2)], r)"
    apply (subst json_str_append)
    apply (subst parse_pairs.simps)
    apply (simp add: scanstring_concat skip_ws_stop not_ws skip_ws_space skip_ws_json_str
        parse_value_str skip_ws_tail del: scanstring.simps parse_value.simps parse_pairs.simps)
    done
  have sk: "skip_ws (newline_indent (Suc 0) @ json_str k2 @ r') = json_str k2 @ r'" for r'
    using skip_ws_newline_indent [of "CHR 0x22" "Suc 0"] by (simp add: json_str_append not_ws)
  show ?thesis
    apply (subst json_str_append)
    apply (subst parse_pairs.simps)
    apply (simp add: scanstring_concat skip_ws_stop not_ws skip_ws_space skip_ws_json_str
        parse_value_str sk second del: scanstring.simps parse_value.simps parse_pairs.simps)
    done
qed

lemma dict_of_two:
  "k1 \<noteq> k2 \<Longrightarrow> dict_of [(k1, v1), (k2, v2)] = [(k1, v1), (k2, v2)]"
  by (simp add: dict_of_def)


lemma parse_value_object:
  "parse_value (Suc n) (CHR ''{'' # newline_indent k @ CHR 0x22 # t)
     = (case parse_pairs n (CHR 0x22 # t) of
          None \<Rightarrow> None
        | Some (kvs, r') \<Rightarrow> Some (PDict (dict_of kvs), r'))"
  by (simp add: skip_ws_newline_indent not_ws del: parse_pairs.simps)

lemma json_loads_config:
  assumes "k1 \<noteq> k2"
  shows "json_loads (json_dumps (PDict [(k1, PStr v1), (k2, PStr v2)]))
           = Inr (PDict [(k1, PStr v1), (k2, PStr v2)])"
proof -
  define t where "t = concat (map esc_char k1) @ CHR 0x22 # CHR '':'' # CHR '' '' # json_str v1
       @ CHR '','' # newline_indent 1 @ json_str k2 @ CHR '':'' # CHR '' '' # json_str v2
       @ newline_indent 0 @ ''}'' @ []"
  define s where "s = json_dumps (PDict [(k1, PStr v1), (k2, PStr v2)])"
  have s: "s = CHR ''{'' # newline_indent 1 @ CHR 0x22 # t"
    by (simp add: s_def t_def json_dumps_config json_str_append)
  have pairs: "parse_pairs (Suc (Suc (Suc m))) (CHR 0x22 # t)
      = Some ([(k1, PStr v1), (k2, PStr v2)], [])" for m
    using parse_pairs_two [of m k1 v1 k2 v2 "[]"]
    by (simp add: t_def json_str_append del: parse_pairs.simps)
  have "3 \<le> length s"
    by (simp add: s newline_indent_def)
  then obtain m where m: "length s = Suc (Suc (Suc m))"
    by (auto simp: numeral_3_eq_3 Suc_le_eq dest!: less_imp_Suc_add)
  have sk: "skip_ws s = s"
    by (simp add: s skip_ws_stop not_ws)
  have "parse_value (Suc (length s)) (skip_ws s)
          = Some (PDict (dict_of [(k1, PStr v1), (k2, PStr v2)]), [])"
    unfolding sk m
    by (subst s) (simp only: parse_value_object pairs option.case prod.case)
  then show ?thesis
    using assms by (simp add: json_loads_def dict_of_two skip_ws_def s_def [symmetric])
qed

lemma length_str_nat: "n < 10 ^ k \<Longrightarrow> 0 < k \<Longrightarrow> length (str_nat n) \<le> k"
proof (induction n arbitrary: k rule: str_nat.induct)
  case (1 n)
  show ?case
  proof (cases "n < 10")
    case True
    with 1(3) show ?thesis by (subst str_nat.simps) simp
  next
    case False
    then obtain j where k: "k = Suc j"
      using 1(3) by (cases k) auto
    from False 1(2) have "0 < j"
      unfolding k by (cases j) auto
    moreover from 1(2) have "n div 10 < 10 ^ j"
      unfolding k by (simp add: less_mult_imp_div_less mult.commute)
    ultimately have "length (str_nat (n div 10)) \<le> j"
      using 1(1) [OF False] by simp
    with False show ?thesis
      by (subst str_nat.simps) (simp add: k)
  qed
qed

lemma length_pad: "n < 10 ^ k \<Longrightarrow> 0 < k \<Longrightarrow> length (pad k n) = k"
  using length_str_nat [of n k] by (simp add: pad_def)

lemma is_digit_zero: "is_digit CHR ''0''"
  by (simp add: is_digit_def)

lemma digits_pad: "list_all is_digit (pad k n)"
  using str_nat_digits [of n] by (auto simp: pad_def is_digit_zero list_all_iff)

lemma nat_of_digits_zeros:
  "foldl (\<lambda>a c. 10 * a + digit_val c) 0 (replicate j CHR ''0'') = 0"
  by (induction j) (simp_all add: digit_val_def)

lemma nat_of_digits_pad: "nat_of_digits (pad k n) = n"
  using nat_of_digits_str_nat [of n]
  by (simp add: pad_def nat_of_digits_def nat_of_digits_zeros)

lemma take_num_pad:
  "n < 10 ^ k \<Longrightarrow> 0 < k \<Longrightarrow> take_num k (pad k n @ r) = Some (n, r)"
  by (simp add: take_num_def length_pad digits_pad nat_of_digits_pad)

lemma take_num_pad_end:
  "n < 10 ^ k \<Longrightarrow> 0 < k \<Longrightarrow> take_num k (pad k n) = Some (n, [])"
  using take_num_pad [of n k "[]"] by simp

lemma expect_cons: "expect c (c # r) = Some r"
  by (simp add: expect_def)

lemma parse_iso8601_isoformat:
  assumes "valid_datetime d"
  shows "parse_iso8601 (isoformat d) = Some d"
proof -
  from assms have b: "year d < 10 ^ 4" "month d < 10 ^ 2" "day d < 10 ^ 2" "hour d < 10 ^ 2"
    "minute d < 10 ^ 2" "second d < 10 ^ 2" "microsecond d < 10 ^ 6"
    by (simp_all add: valid_datetime_def)
  note tn = take_num_pad [OF b(1)] take_num_pad [OF b(2)] take_num_pad [OF b(3)]
    take_num_pad [OF b(4)] take_num_pad [OF b(5)] take_num_pad [OF b(6)]
    take_num_pad_end [OF b(6)] take_num_pad_end [OF b(7)]
  have nonempty: "pad 2 (second d) @ CHR ''.'' # r \<noteq> pad 2 (second d)" for r
    by simp
  show ?thesis
  proof (cases "microsecond d = 0")
    case True
    then have e: "\<lparr>year = year d, month = month d, day = day d, hour = hour d,
        minute = minute d, second = second d, microsecond = 0\<rparr> = d"
      by (cases d) simp
    from True assms show ?thesis
      by (simp add: parse_iso8601_def isoformat_def tn expect_cons Let_def e)
  next
    case False
    have e: "\<lparr>year = year d, month = month d, day = day d, hour = hour d,
        minute = minute d, second = second d, microsecond = microsecond d\<rparr> = d"
      by simp
    from False assms show ?thesis
      by (simp add: parse_iso8601_def isoformat_def tn expect_cons Let_def e)
  qed
qed

lemma lex_le_refl: "lex_le xs xs"
  by (induction xs) simp_all

lemma dt_le_refl: "dt_le a a"
  by (simp add: dt_le_def)


lemma save_configuration_ok:
  assumes "run E list_rules_cmd (os w) = ((0, listing), s')"
    and "writable E s' config_file"
  shows "save_configuration E w
    = logging_info (Msg (''Configuration saved to '' @ config_file))
        (w\<lparr>os := s', calls := calls w @ [list_rules_cmd],
           out := out w @ [Msg ''Current Firewall Rules:'', Msg listing],
           files := (files w)(config_file \<mapsto>
             json_dumps (PDict [(''timestamp'', PStr (isoformat (now E s'))),
                                (''rules'', PStr listing)]))\<rparr>)"
  using assms
  by (simp add: save_configuration_def list_current_rules_eq print_def Let_def)

lemma load_after_save:
  assumes "run E list_rules_cmd (os w) = ((0, listing), s')"
    and "writable E s' config_file"
  shows "load_config (save_configuration E w)
    = Inr (PDict [(''timestamp'', PStr (isoformat (now E s'))), (''rules'', PStr listing)])"
  by (simp add: save_configuration_ok [OF assms] load_config_def logging_info_def
      json_loads_config)

lemma restore_configuration_frame:
  "calls (restore_configuration E w) = calls w \<and> os (restore_configuration E w) = os w
   \<and> files (restore_configuration E w) = files w"
  by (simp add: restore_configuration_def logging_error_def logging_info_def print_def
      split: sum.splits)

lemma clock_iptables_run: "clock (snd (iptables_run cmd h)) = clock h"
  by (simp add: iptables_run_def Let_def split: option.splits)

lemma clock_monotone_ref_env: "clock_monotone ref_env"
  by (simp add: clock_monotone_def ref_env_sel clock_iptables_run dt_le_refl)

lemma host1_sel: "fault host1 = None" "read_only host1 = False" "clock host1 = clock host0"
  "table host1 = [(''INPUT'', ''tcp'', ''203.0.113.5'', ''443'')]"
  by (simp_all add: host1_def host0_sel)

lemma valid_clock_host0: "valid_datetime (clock host0)"
  by (simp add: host0_sel valid_datetime_def)

section \<open>Claims about the snapshot\<close>

text \<open>
  C5: when the listing succeeds with the text \<open>listing\<close> and the snapshot file can be
  written, decoding the file that \<^verbatim>\<open>save_configuration\<close> wrote gives a snapshot whose
  \<open>rules\<close> field is \<open>listing\<close>, character for character, and whose \<open>timestamp\<close> is
  an ISO-8601 date and time: it reads back as the clock reading taken during the save,
  which is no earlier than the reading at the time of the call.
\<close>

theorem save_then_load_round_trip:
  assumes "run E list_rules_cmd (os w) = ((0, listing), s')"
    and "writable E s' config_file"
    and "valid_datetime (now E s')"
    and "clock_monotone E"
  shows "load_config (save_configuration E w)
      = Inr (PDict [(''timestamp'', PStr (isoformat (now E s'))), (''rules'', PStr listing)])
    \<and> parse_iso8601 (isoformat (now E s')) = Some (now E s')
    \<and> dt_le (now E (os w)) (now E s')"
proof -
  from assms(4) have "dt_le (now E (os w)) (now E (snd (run E list_rules_cmd (os w))))"
    unfolding clock_monotone_def by blast
  then have "dt_le (now E (os w)) (now E s')"
    by (simp add: assms(1))
  then show ?thesis
    by (simp add: load_after_save [OF assms(1,2)] parse_iso8601_isoformat [OF assms(3)])
qed

theorem save_then_load_round_trip_witness:
  "load_config (save_configuration ref_env (world0 host1))
      = Inr (PDict [(''timestamp'', PStr (isoformat (clock host0))),
                    (''rules'', PStr (render_rule (''INPUT'', ''tcp'', ''203.0.113.5'', ''443'')))])
    \<and> parse_iso8601 (isoformat (clock host0)) = Some (clock host0)
    \<and> dt_le (clock host0) (clock host0)"
proof -
  have r: "run ref_env list_rules_cmd (os (world0 host1))
      = ((0, render_rule (''INPUT'', ''tcp'', ''203.0.113.5'', ''443'')), host1)"
    by (simp add: ref_env_sel world0_sel iptables_list host1_sel)
  have w: "writable ref_env host1 config_file"
    by (simp add: ref_env_sel host1_sel)
  have v: "valid_datetime (now ref_env host1)"
    by (simp add: ref_env_sel host1_sel valid_clock_host0)
  from save_then_load_round_trip [OF r w v clock_monotone_ref_env] show ?thesis
    by (simp add: ref_env_sel host1_sel world0_sel)
qed



end
